theory Spec2Isabelle
  imports Main "HOL-Library.Multiset"
begin

section \<open>Data model (frontend/src/types/todo.ts)\<close>

text \<open>
  A JavaScript number, as far as this code needs it: an integer, or \<^verbatim>\<open>NaN\<close>.
  Subtraction gives \<^verbatim>\<open>NaN\<close> when an operand is \<^verbatim>\<open>NaN\<close>, and a comparison
  with \<^verbatim>\<open>NaN\<close> is false.
\<close>

datatype number = Number int | NaN

fun subtract :: "number \<Rightarrow> number \<Rightarrow> number" where
  "subtract (Number x) (Number y) = Number (x - y)"
| "subtract x y = NaN"

fun lessEq :: "number \<Rightarrow> number \<Rightarrow> bool" where
  "lessEq (Number x) (Number y) = (x \<le> y)"
| "lessEq x y = False"

text \<open>
  A JavaScript \<^verbatim>\<open>Date\<close> is represented by its time value (\<^verbatim>\<open>getTime()\<close>): the
  number of milliseconds since the epoch, or \<^verbatim>\<open>NaN\<close> for an Invalid Date, which is
  what \<^verbatim>\<open>new Date(s)\<close> gives for a string that is not a date. The string parser
  behind \<^verbatim>\<open>new Date(s)\<close> and the clock behind \<^verbatim>\<open>new Date()\<close> belong to the
  runtime; they are passed in as \<open>newDate\<close> and \<open>now\<close>.
\<close>

type_synonym Date = number

datatype Priority = Low | Medium | High

text \<open>
  \<^verbatim>\<open>interface Todo\<close>. The field \<^verbatim>\<open>id\<close> is called \<open>todo_id\<close> here, since
  \<open>id\<close> is the identity function of HOL. The optional fields \<^verbatim>\<open>description?\<close> and
  \<^verbatim>\<open>dueDate?\<close> are \<open>None\<close> when they read as \<^verbatim>\<open>undefined\<close>.
\<close>

record Todo =
  todo_id :: string
  title :: string
  description :: "string option"
  completed :: bool
  priority :: Priority
  dueDate :: "Date option"
  createdAt :: Date
  updatedAt :: Date

text \<open>
  An optional property of a request object. JavaScript tells a key that is missing from a
  key that is there with the value \<^verbatim>\<open>undefined\<close> (the item editor builds
  \<^verbatim>\<open>{description: editData.description || undefined, ...}\<close>); reading the
  property gives \<^verbatim>\<open>undefined\<close> in both cases.
\<close>

datatype 'a optional = KeyMissing | KeyUndefined | KeyValue 'a

fun read :: "'a optional \<Rightarrow> 'a option" where
  "read KeyMissing = None"
| "read KeyUndefined = None"
| "read (KeyValue v) = Some v"

fun hasKey :: "'a optional \<Rightarrow> bool" where
  "hasKey KeyMissing = False"
| "hasKey KeyUndefined = True"
| "hasKey (KeyValue v) = True"

text \<open>\<^verbatim>\<open>interface CreateTodoRequest\<close>; its fields carry the prefix \<open>c_\<close>.\<close>

record CreateTodoRequest =
  c_title :: string
  c_description :: "string optional"
  c_priority :: Priority
  c_dueDate :: "string optional"

text \<open>
  \<^verbatim>\<open>interface UpdateTodoRequest\<close>; its fields carry the prefix \<open>u_\<close>. The backend's
  \<^verbatim>\<open>UpdateTodoDto\<close> is the same object after transport.
\<close>

record UpdateTodoRequest =
  u_title :: "string optional"
  u_description :: "string optional"
  u_completed :: "bool optional"
  u_priority :: "Priority optional"
  u_dueDate :: "string optional"

section \<open>The client store (frontend/src/store/todoSlice.ts)\<close>

datatype FilterType = FilterAll | FilterActive | FilterCompleted

datatype SortType = SortCreated | SortPriority | SortDueDate

datatype Operation = Creating | Updating | Deleting

text \<open>
  \<^verbatim>\<open>interface TodoState\<close>. The fields \<^verbatim>\<open>filter\<close> and \<^verbatim>\<open>sort\<close> are
  called \<open>filterType\<close> and \<open>sortType\<close>.
\<close>

record TodoState =
  todos :: "Todo list"
  loading :: bool
  error :: "string option"
  filterType :: FilterType
  sortType :: SortType
  optimisticOperations :: "string \<rightharpoonup> Operation"

definition initialState :: TodoState where
  "initialState =
     \<lparr>todos = [], loading = False, error = None, filterType = FilterAll,
      sortType = SortCreated, optimisticOperations = Map.empty\<rparr>"

text \<open>\<^verbatim>\<open>Array.prototype.findIndex\<close>: the first index whose element passes, \<open>None\<close> for -1.\<close>

fun findIndex :: "('a \<Rightarrow> bool) \<Rightarrow> 'a list \<Rightarrow> nat option" where
  "findIndex P [] = None"
| "findIndex P (x # xs) = (if P x then Some 0 else map_option Suc (findIndex P xs))"

subsection \<open>Reducers\<close>

definition setError :: "string option \<Rightarrow> TodoState \<Rightarrow> TodoState" where
  "setError payload state = state\<lparr>error := payload\<rparr>"

definition addTodoOptimistic :: "Todo \<Rightarrow> TodoState \<Rightarrow> TodoState" where
  "addTodoOptimistic payload state =
     state\<lparr>todos := todos state @ [payload],
           optimisticOperations := (optimisticOperations state)(todo_id payload \<mapsto> Creating)\<rparr>"

definition updateTodoOptimistic :: "Todo \<Rightarrow> TodoState \<Rightarrow> TodoState" where
  "updateTodoOptimistic payload state =
     (case findIndex (\<lambda>todo. todo_id todo = todo_id payload) (todos state) of
        None \<Rightarrow> state
      | Some index \<Rightarrow>
          state\<lparr>todos := (todos state)[index := payload],
                optimisticOperations := (optimisticOperations state)(todo_id payload \<mapsto> Updating)\<rparr>)"


definition unmarkTodoAsDeleting :: "string \<Rightarrow> TodoState \<Rightarrow> TodoState" where
  "unmarkTodoAsDeleting payload state =
     state\<lparr>optimisticOperations := (optimisticOperations state)(payload := None)\<rparr>"

definition removeOptimisticTodo :: "string \<Rightarrow> TodoState \<Rightarrow> TodoState" where
  "removeOptimisticTodo payload state =
     state\<lparr>todos := filter (\<lambda>todo. todo_id todo \<noteq> payload) (todos state),
           optimisticOperations := (optimisticOperations state)(payload := None)\<rparr>"

definition setFilter :: "FilterType \<Rightarrow> TodoState \<Rightarrow> TodoState" where
  "setFilter payload state = state\<lparr>filterType := payload\<rparr>"

definition setSort :: "SortType \<Rightarrow> TodoState \<Rightarrow> TodoState" where
  "setSort payload state = state\<lparr>sortType := payload\<rparr>"

subsection \<open>Extra reducers (the lifecycle actions of the thunks)\<close>

definition fetchTodos_pending :: "TodoState \<Rightarrow> TodoState" where
  "fetchTodos_pending state = state\<lparr>loading := True, error := None\<rparr>"

definition fetchTodos_fulfilled :: "Todo list \<Rightarrow> TodoState \<Rightarrow> TodoState" where
  "fetchTodos_fulfilled payload state = state\<lparr>loading := False, todos := payload\<rparr>"

text \<open>\<^verbatim>\<open>action.error.message || 'Failed to fetch todos'\<close>: the message when it is truthy.\<close>

definition fetchTodos_rejected :: "string option \<Rightarrow> TodoState \<Rightarrow> TodoState" where
  "fetchTodos_rejected message state =
     state\<lparr>loading := False,
           error := Some (case message of
                            None \<Rightarrow> ''Failed to fetch todos''
                          | Some m \<Rightarrow> if m \<noteq> [] then m else ''Failed to fetch todos'')\<rparr>"

definition createTodo_fulfilled :: "string \<times> Todo \<Rightarrow> TodoState \<Rightarrow> TodoState" where
  "createTodo_fulfilled payload state =
     (case payload of (tempId, newTodo) \<Rightarrow>
        (case findIndex (\<lambda>todo. todo_id todo = tempId) (todos state) of
           None \<Rightarrow> state\<lparr>optimisticOperations := (optimisticOperations state)(tempId := None)\<rparr>
         | Some index \<Rightarrow>
             state\<lparr>todos := (todos state)[index := newTodo],
                   optimisticOperations := (optimisticOperations state)(tempId := None)\<rparr>))"

definition createTodo_rejected :: "string \<Rightarrow> TodoState \<Rightarrow> TodoState" where
  "createTodo_rejected payload state = state\<lparr>error := Some payload\<rparr>"

definition updateTodo_fulfilled :: "Todo \<Rightarrow> TodoState \<Rightarrow> TodoState" where
  "updateTodo_fulfilled serverTodo state =
     (case findIndex (\<lambda>todo. todo_id todo = todo_id serverTodo) (todos state) of
        None \<Rightarrow>
          state\<lparr>optimisticOperations := (optimisticOperations state)(todo_id serverTodo := None)\<rparr>
      | Some index \<Rightarrow>
          state\<lparr>todos := (todos state)[index := serverTodo],
                optimisticOperations := (optimisticOperations state)(todo_id serverTodo := None)\<rparr>)"

definition updateTodo_rejected :: "string \<Rightarrow> TodoState \<Rightarrow> TodoState" where
  "updateTodo_rejected payload state = state\<lparr>error := Some payload\<rparr>"

definition deleteTodo_fulfilled :: "string \<Rightarrow> TodoState \<Rightarrow> TodoState" where
  "deleteTodo_fulfilled todoId state =
     state\<lparr>todos := filter (\<lambda>todo. todo_id todo \<noteq> todoId) (todos state),
           optimisticOperations := (optimisticOperations state)(todoId := None)\<rparr>"

definition deleteTodo_rejected :: "string \<Rightarrow> TodoState \<Rightarrow> TodoState" where
  "deleteTodo_rejected payload state = state\<lparr>error := Some payload\<rparr>"

definition toggleTodoComplete_fulfilled :: "Todo \<Rightarrow> TodoState \<Rightarrow> TodoState" where
  "toggleTodoComplete_fulfilled serverTodo state =
     (case findIndex (\<lambda>todo. todo_id todo = todo_id serverTodo) (todos state) of
        None \<Rightarrow>
          state\<lparr>optimisticOperations := (optimisticOperations state)(todo_id serverTodo := None)\<rparr>
      | Some index \<Rightarrow>
          state\<lparr>todos := (todos state)[index := serverTodo],
                optimisticOperations := (optimisticOperations state)(todo_id serverTodo := None)\<rparr>)"

definition toggleTodoComplete_rejected :: "string \<Rightarrow> TodoState \<Rightarrow> TodoState" where
  "toggleTodoComplete_rejected payload state = state\<lparr>error := Some payload\<rparr>"

section \<open>The thunks (frontend/src/store/todoSlice.ts)\<close>

text \<open>
  A thunk runs in two steps. The first, \<open>_submit\<close>, is the code before the
  \<^verbatim>\<open>await\<close>: it dispatches the optimistic reducer and returns to the event loop.
  The second, \<open>_settle\<close>, is the code after the \<^verbatim>\<open>await\<close>, run when the call to
  \<^verbatim>\<open>todoApi\<close> has resolved or thrown, followed by the reducer of the
  \<^verbatim>\<open>fulfilled\<close> or \<^verbatim>\<open>rejected\<close> action that \<^verbatim>\<open>createAsyncThunk\<close>
  dispatches with the returned value. It yields that action (\<open>Inl\<close> for a rejected
  one) and the new state. Other thunks may run between the two steps.
  On a failure the rollback is dispatched in the \<^verbatim>\<open>catch\<close> block and the
  \<^verbatim>\<open>rejected\<close> action a moment later; the latter only stores the message, so the
  two are taken as one step.
\<close>

text \<open>
  \<^verbatim>\<open>createAsyncThunk\<close> is a primitive of the library. The promise that
  \<^verbatim>\<open>dispatch\<close> returns for a thunk resolves to the lifecycle action dispatched at
  the end: its \<^verbatim>\<open>type\<close> is the type prefix of the thunk followed by
  \<^verbatim>\<open>/fulfilled\<close> or \<^verbatim>\<open>/rejected\<close>, its \<^verbatim>\<open>payload\<close> is the value
  the thunk returned (for a rejected action, the value given to
  \<^verbatim>\<open>rejectWithValue\<close>), and \<^verbatim>\<open>meta.arg\<close> is the argument the thunk was
  called with. The other members of the action hold nothing of the mutation and are left
  out: a request identifier that the library draws at random for each call, flags, and
  for a rejected action the fixed error text of \<^verbatim>\<open>rejectWithValue\<close>.
\<close>

record ('p, 'a) ThunkAction =
  action_type :: string
  action_payload :: 'p
  meta_arg :: 'a

text \<open>What a \<^verbatim>\<open>catch\<close> receives: an \<^verbatim>\<open>Error\<close> with its message, or any other value.\<close>

datatype Thrown = ErrorObject string | OtherValue

text \<open>\<^verbatim>\<open>error instanceof Error ? error.message : fallback\<close>\<close>

fun messageOr :: "Thrown \<Rightarrow> string \<Rightarrow> string" where
  "messageOr (ErrorObject message) fallback = message"
| "messageOr OtherValue fallback = fallback"

text \<open>The outcome of an awaited call to \<^verbatim>\<open>todoApi\<close>.\<close>

datatype 'a Settled = Resolves 'a | Throws Thrown

text \<open>A string is truthy when it is not empty.\<close>

definition truthy :: "string \<Rightarrow> bool" where
  "truthy s = (s \<noteq> [])"

subsection \<open>createTodo\<close>

definition optimisticTodo :: "(string \<Rightarrow> Date) \<Rightarrow> string \<Rightarrow> Date \<Rightarrow> CreateTodoRequest \<Rightarrow> Todo" where
  "optimisticTodo newDate tempId now todoData =
     \<lparr>todo_id = tempId,
      title = c_title todoData,
      description = read (c_description todoData),
      completed = False,
      priority = c_priority todoData,
      dueDate = (case read (c_dueDate todoData) of
                   None \<Rightarrow> None
                 | Some d \<Rightarrow> if truthy d then Some (newDate d) else None),
      createdAt = now,
      updatedAt = now\<rparr>"

definition createTodo_submit ::
  "(string \<Rightarrow> Date) \<Rightarrow> string \<Rightarrow> Date \<Rightarrow> CreateTodoRequest \<Rightarrow> TodoState \<Rightarrow> TodoState" where
  "createTodo_submit newDate tempId now todoData state =
     addTodoOptimistic (optimisticTodo newDate tempId now todoData) state"

definition createTodo_settle ::
  "string \<Rightarrow> CreateTodoRequest \<Rightarrow> Todo Settled \<Rightarrow> TodoState
     \<Rightarrow> ((string, CreateTodoRequest) ThunkAction
          + (string \<times> Todo, CreateTodoRequest) ThunkAction) \<times> TodoState" where
  "createTodo_settle tempId todoData outcome state =
     (case outcome of
        Resolves newTodo \<Rightarrow>
          (Inr \<lparr>action_type = ''todos/createTodo/fulfilled'',
                action_payload = (tempId, newTodo), meta_arg = todoData\<rparr>,
           createTodo_fulfilled (tempId, newTodo) state)
      | Throws e \<Rightarrow>
          (let message = messageOr e ''Failed to create todo''
           in (Inl \<lparr>action_type = ''todos/createTodo/rejected'',
                     action_payload = message, meta_arg = todoData\<rparr>,
               createTodo_rejected message (removeOptimisticTodo tempId state))))"

subsection \<open>updateTodo\<close>

text \<open>The argument \<^verbatim>\<open>{ id, todoData, originalTodo }\<close>; \<^verbatim>\<open>id\<close> is called \<open>arg_id\<close>.\<close>

record UpdateTodoArg =
  arg_id :: string
  todoData :: UpdateTodoRequest
  originalTodo :: Todo

definition updatedTodo :: "(string \<Rightarrow> Date) \<Rightarrow> Date \<Rightarrow> UpdateTodoArg \<Rightarrow> Todo" where
  "updatedTodo newDate now arg =
     (originalTodo arg)
       \<lparr>title := (case read (u_title (todoData arg)) of
                    Some v \<Rightarrow> v | None \<Rightarrow> title (originalTodo arg)),
        description := (case read (u_description (todoData arg)) of
                    Some v \<Rightarrow> Some v | None \<Rightarrow> description (originalTodo arg)),
        completed := (case read (u_completed (todoData arg)) of
                    Some v \<Rightarrow> v | None \<Rightarrow> completed (originalTodo arg)),
        priority := (case read (u_priority (todoData arg)) of
                    Some v \<Rightarrow> v | None \<Rightarrow> priority (originalTodo arg)),
        dueDate := (case read (u_dueDate (todoData arg)) of
                    Some v \<Rightarrow> (if truthy v then Some (newDate v) else None)
                  | None \<Rightarrow> dueDate (originalTodo arg)),
        updatedAt := now\<rparr>"

definition updateTodo_submit ::
  "(string \<Rightarrow> Date) \<Rightarrow> Date \<Rightarrow> UpdateTodoArg \<Rightarrow> TodoState \<Rightarrow> TodoState" where
  "updateTodo_submit newDate now arg state =
     updateTodoOptimistic (updatedTodo newDate now arg) state"

definition updateTodo_settle ::
  "UpdateTodoArg \<Rightarrow> Todo Settled \<Rightarrow> TodoState
     \<Rightarrow> ((string, UpdateTodoArg) ThunkAction + (Todo, UpdateTodoArg) ThunkAction)
         \<times> TodoState" where
  "updateTodo_settle arg outcome state =
     (case outcome of
        Resolves serverTodo \<Rightarrow>
          (Inr \<lparr>action_type = ''todos/updateTodo/fulfilled'',
                action_payload = serverTodo, meta_arg = arg\<rparr>,
           updateTodo_fulfilled serverTodo state)
      | Throws e \<Rightarrow>
          (let message = messageOr e ''Failed to update todo''
           in (Inl \<lparr>action_type = ''todos/updateTodo/rejected'',
                     action_payload = message, meta_arg = arg\<rparr>,
               updateTodo_rejected message (updateTodoOptimistic (originalTodo arg) state))))"

subsection \<open>deleteTodo\<close>


definition deleteTodo_settle ::
  "string \<Rightarrow> unit Settled \<Rightarrow> TodoState
     \<Rightarrow> ((string, string) ThunkAction + (string, string) ThunkAction) \<times> TodoState" where
  "deleteTodo_settle todoId outcome state =
     (case outcome of
        Resolves u \<Rightarrow>
          (Inr \<lparr>action_type = ''todos/deleteTodo/fulfilled'',
                action_payload = todoId, meta_arg = todoId\<rparr>,
           deleteTodo_fulfilled todoId state)
      | Throws e \<Rightarrow>
          (let message = messageOr e ''Failed to delete todo''
           in (Inl \<lparr>action_type = ''todos/deleteTodo/rejected'',
                     action_payload = message, meta_arg = todoId\<rparr>,
               deleteTodo_rejected message (unmarkTodoAsDeleting todoId state))))"

subsection \<open>toggleTodoComplete\<close>

definition toggledTodo :: "Date \<Rightarrow> Todo \<Rightarrow> Todo" where
  "toggledTodo now todo = todo\<lparr>completed := \<not> completed todo, updatedAt := now\<rparr>"

definition toggleTodoComplete_submit :: "Date \<Rightarrow> Todo \<Rightarrow> TodoState \<Rightarrow> TodoState" where
  "toggleTodoComplete_submit now todo state = updateTodoOptimistic (toggledTodo now todo) state"

definition toggleTodoComplete_settle ::
  "Todo \<Rightarrow> Todo Settled \<Rightarrow> TodoState
     \<Rightarrow> ((string, Todo) ThunkAction + (Todo, Todo) ThunkAction) \<times> TodoState" where
  "toggleTodoComplete_settle todo outcome state =
     (case outcome of
        Resolves serverTodo \<Rightarrow>
          (Inr \<lparr>action_type = ''todos/toggleTodoComplete/fulfilled'',
                action_payload = serverTodo, meta_arg = todo\<rparr>,
           toggleTodoComplete_fulfilled serverTodo state)
      | Throws e \<Rightarrow>
          (let message = messageOr e ''Failed to update todo''
           in (Inl \<lparr>action_type = ''todos/toggleTodoComplete/rejected'',
                     action_payload = message, meta_arg = todo\<rparr>,
               toggleTodoComplete_rejected message (updateTodoOptimistic todo state))))"

section \<open>The view projection (frontend/src/utils/todoUtils.ts)\<close>

definition filterTodos :: "Todo list \<Rightarrow> FilterType \<Rightarrow> Todo list" where
  "filterTodos ts f =
     (case f of
        FilterActive \<Rightarrow> filter (\<lambda>todo. \<not> completed todo) ts
      | FilterCompleted \<Rightarrow> filter (\<lambda>todo. completed todo) ts
      | FilterAll \<Rightarrow> ts)"

text \<open>
  \<^verbatim>\<open>Array.prototype.sort(compareFn)\<close> is a primitive of the runtime. It is stable,
  \<open>a\<close> goes before \<open>b\<close> when \<open>compareFn a b\<close> is negative, and a result of
  \<^verbatim>\<open>NaN\<close> counts as zero (\<open>sortCompare\<close>). It is modelled by stable insertion,
  which every conforming engine agrees with when the comparator is consistent. When it is
  not, as with an Invalid Date below, the standard leaves the order to the engine; the
  model then keeps to insertion.
\<close>

fun sortCompare :: "number \<Rightarrow> int" where
  "sortCompare NaN = 0"
| "sortCompare (Number v) = v"

fun insertBy :: "('a \<Rightarrow> 'a \<Rightarrow> number) \<Rightarrow> 'a \<Rightarrow> 'a list \<Rightarrow> 'a list" where
  "insertBy compareFn a [] = [a]"
| "insertBy compareFn a (b # bs) =
     (if sortCompare (compareFn a b) \<le> 0 then a # b # bs else b # insertBy compareFn a bs)"

definition array_sort :: "('a \<Rightarrow> 'a \<Rightarrow> number) \<Rightarrow> 'a list \<Rightarrow> 'a list" where
  "array_sort compareFn xs = foldr (insertBy compareFn) xs []"

fun priorityOrder :: "Priority \<Rightarrow> number" where
  "priorityOrder High = Number 3"
| "priorityOrder Medium = Number 2"
| "priorityOrder Low = Number 1"

definition comparePriority :: "Todo \<Rightarrow> Todo \<Rightarrow> number" where
  "comparePriority a b = subtract (priorityOrder (priority b)) (priorityOrder (priority a))"

text \<open>
  A \<^verbatim>\<open>Date\<close> object is truthy, an Invalid Date too: only a todo without due date
  takes one of the first three branches.
\<close>

definition compareDueDate :: "Todo \<Rightarrow> Todo \<Rightarrow> number" where
  "compareDueDate a b =
     (case (dueDate a, dueDate b) of
        (None, None) \<Rightarrow> Number 0
      | (None, Some y) \<Rightarrow> Number 1
      | (Some x, None) \<Rightarrow> Number (-1)
      | (Some x, Some y) \<Rightarrow> subtract x y)"

definition compareCreated :: "Todo \<Rightarrow> Todo \<Rightarrow> number" where
  "compareCreated a b = subtract (createdAt b) (createdAt a)"

definition sortTodos :: "Todo list \<Rightarrow> SortType \<Rightarrow> Todo list" where
  "sortTodos ts s =
     (case s of
        SortPriority \<Rightarrow> array_sort comparePriority ts
      | SortDueDate \<Rightarrow> array_sort compareDueDate ts
      | SortCreated \<Rightarrow> array_sort compareCreated ts)"

definition getFilteredAndSortedTodos :: "Todo list \<Rightarrow> FilterType \<Rightarrow> SortType \<Rightarrow> Todo list" where
  "getFilteredAndSortedTodos ts f s = sortTodos (filterTodos ts f) s"

subsection \<open>The list component (TodoList and TodoItem)\<close>



section \<open>The backend service (backend/src/todos/todo.service.ts)\<close>

text \<open>
  Modelled from the spec: the declaration of \<^verbatim>\<open>UpdateTodoDto\<close>
  (\<^verbatim>\<open>dto/update-todo.dto.ts\<close>) is not among the sources. It is the object of field
  changes of \<^verbatim>\<open>update(id, fieldChanges)\<close>, with the five optional fields that
  \<^verbatim>\<open>TodoService.update\<close> reads, as in \<^verbatim>\<open>UpdateTodoRequest\<close>.
\<close>

type_synonym UpdateTodoDto = UpdateTodoRequest

text \<open>\<^verbatim>\<open>class TodoService\<close>; the private field \<^verbatim>\<open>todos\<close> is called \<open>service_todos\<close>.\<close>

record TodoService =
  service_todos :: "Todo list"
  idCounter :: nat

datatype HttpException = NotFoundException string

definition findOne :: "string \<Rightarrow> TodoService \<Rightarrow> HttpException + Todo" where
  "findOne i service =
     (case find (\<lambda>t. todo_id t = i) (service_todos service) of
        None \<Rightarrow> Inl (NotFoundException (''Todo with ID '' @ i @ '' not found''))
      | Some todo \<Rightarrow> Inr todo)"

text \<open>
  \<^verbatim>\<open>update\<close> assigns to the fields of the object that \<^verbatim>\<open>findOne\<close>
  returns. That object is the first element of the array with the identifier, and every
  element of the array is an object of its own (\<^verbatim>\<open>create\<close> and the seed data
  build a new one each time), so the assignments change the array at that position and
  nowhere else: \<open>replaceFirst\<close> writes the object back there.
\<close>

fun replaceFirst :: "('a \<Rightarrow> bool) \<Rightarrow> 'a \<Rightarrow> 'a list \<Rightarrow> 'a list" where
  "replaceFirst P y [] = []"
| "replaceFirst P y (x # xs) = (if P x then y # xs else x # replaceFirst P y xs)"

text \<open>
  The result is the returned todo with the service after the call, or the exception that
  \<^verbatim>\<open>findOne\<close> throws, in which case nothing has been assigned.
\<close>

definition TodoService_update ::
  "(string \<Rightarrow> Date) \<Rightarrow> Date \<Rightarrow> string \<Rightarrow> UpdateTodoDto \<Rightarrow> TodoService
     \<Rightarrow> HttpException + Todo \<times> TodoService" where
  "TodoService_update newDate now i updateTodoDto service =
     (case findOne i service of
        Inl exception \<Rightarrow> Inl exception
      | Inr found \<Rightarrow>
          (let todo = (case read (u_title updateTodoDto) of
                         Some v \<Rightarrow> found\<lparr>title := v\<rparr> | None \<Rightarrow> found);
               todo = (case read (u_description updateTodoDto) of
                         Some v \<Rightarrow> todo\<lparr>description := Some v\<rparr> | None \<Rightarrow> todo);
               todo = (case read (u_completed updateTodoDto) of
                         Some v \<Rightarrow> todo\<lparr>completed := v\<rparr> | None \<Rightarrow> todo);
               todo = (case read (u_priority updateTodoDto) of
                         Some v \<Rightarrow> todo\<lparr>priority := v\<rparr> | None \<Rightarrow> todo);
               todo = (case read (u_dueDate updateTodoDto) of
                         Some v \<Rightarrow> todo\<lparr>dueDate := (if truthy v then Some (newDate v) else None)\<rparr>
                       | None \<Rightarrow> todo);
               todo = todo\<lparr>updatedAt := now\<rparr>
           in Inr (todo,
                   service\<lparr>service_todos :=
                     replaceFirst (\<lambda>t. todo_id t = i) todo (service_todos service)\<rparr>)))"

section \<open>Observations and specified notions\<close>

text \<open>The mirror entry of an identifier: the first todo of the list that carries it.\<close>

definition mirrorEntry :: "TodoState \<Rightarrow> string \<Rightarrow> Todo option" where
  "mirrorEntry state i = find (\<lambda>todo. todo_id todo = i) (todos state)"

subsection \<open>The filter and the orders of the projection, as specified\<close>

definition passes :: "FilterType \<Rightarrow> Todo \<Rightarrow> bool" where
  "passes f todo =
     (case f of FilterAll \<Rightarrow> True | FilterActive \<Rightarrow> \<not> completed todo
      | FilterCompleted \<Rightarrow> completed todo)"

text \<open>
  \<open>inOrder s a b\<close>: \<open>a\<close> may stand before \<open>b\<close>. By creation time descending, by
  priority rank descending (high over medium over low), or by due date ascending with a
  todo without due date after every todo that has one.
\<close>

fun rank :: "Priority \<Rightarrow> nat" where
  "rank Low = 0"
| "rank Medium = 1"
| "rank High = 2"

definition inOrder :: "SortType \<Rightarrow> Todo \<Rightarrow> Todo \<Rightarrow> bool" where
  "inOrder s a b =
     (case s of
        SortCreated \<Rightarrow> lessEq (createdAt b) (createdAt a)
      | SortPriority \<Rightarrow> rank (priority b) \<le> rank (priority a)
      | SortDueDate \<Rightarrow>
          (case dueDate b of
             None \<Rightarrow> True
           | Some y \<Rightarrow> (case dueDate a of None \<Rightarrow> False | Some x \<Rightarrow> lessEq x y)))"

text \<open>The date that a selection sorts on is a valid one (no Invalid Date).\<close>

definition sortKeyValid :: "SortType \<Rightarrow> Todo \<Rightarrow> bool" where
  "sortKeyValid s todo =
     (case s of
        SortCreated \<Rightarrow> createdAt todo \<noteq> NaN
      | SortPriority \<Rightarrow> True
      | SortDueDate \<Rightarrow> dueDate todo \<noteq> Some NaN)"

subsection \<open>Schedules of two updates of one identifier\<close>

text \<open>
  Update \<open>U1\<close> is submitted, then update \<open>U2\<close>, before either call has returned. The call
  of \<open>U1\<close> throws and the call of \<open>U2\<close> resolves with \<open>serverTodo2\<close>; the event loop
  may run the two continuations in either order.
\<close>

definition failure_then_success ::
  "(string \<Rightarrow> Date) \<Rightarrow> Date \<Rightarrow> Date \<Rightarrow> UpdateTodoArg \<Rightarrow> UpdateTodoArg \<Rightarrow> Thrown \<Rightarrow> Todo \<Rightarrow> TodoState \<Rightarrow> TodoState" where
  "failure_then_success newDate now1 now2 U1 U2 e serverTodo2 state =
     snd (updateTodo_settle U2 (Resolves serverTodo2)
       (snd (updateTodo_settle U1 (Throws e)
         (updateTodo_submit newDate now2 U2 (updateTodo_submit newDate now1 U1 state)))))"

definition success_then_failure ::
  "(string \<Rightarrow> Date) \<Rightarrow> Date \<Rightarrow> Date \<Rightarrow> UpdateTodoArg \<Rightarrow> UpdateTodoArg \<Rightarrow> Thrown \<Rightarrow> Todo \<Rightarrow> TodoState \<Rightarrow> TodoState" where
  "success_then_failure newDate now1 now2 U1 U2 e serverTodo2 state =
     snd (updateTodo_settle U1 (Throws e)
       (snd (updateTodo_settle U2 (Resolves serverTodo2)
         (updateTodo_submit newDate now2 U2 (updateTodo_submit newDate now1 U1 state)))))"

section \<open>Sample data\<close>

text \<open>
  A stand-in for the parser behind \<^verbatim>\<open>new Date(s)\<close>: it knows one date string
  and gives an Invalid Date for every other string.
\<close>

definition sampleNewDate :: "string \<Rightarrow> Date" where
  "sampleNewDate s = (if s = ''2030-01-31'' then Number 1896048000000 else NaN)"

definition sampleTodo :: Todo where
  "sampleTodo =
     \<lparr>todo_id = ''1'', title = ''Buy milk'', description = Some ''two litres'', completed = False,
      priority = Low, dueDate = None, createdAt = Number 100, updatedAt = Number 100\<rparr>"

definition noChanges :: UpdateTodoRequest where
  "noChanges =
     \<lparr>u_title = KeyMissing, u_description = KeyMissing, u_completed = KeyMissing,
      u_priority = KeyMissing, u_dueDate = KeyMissing\<rparr>"

definition sampleState :: TodoState where
  "sampleState = initialState\<lparr>todos := [sampleTodo]\<rparr>"

definition sampleU1 :: UpdateTodoArg where
  "sampleU1 =
     \<lparr>arg_id = ''1'', todoData = noChanges\<lparr>u_title := KeyValue ''Buy bread''\<rparr>,
      originalTodo = sampleTodo\<rparr>"

definition sampleU2 :: UpdateTodoArg where
  "sampleU2 =
     \<lparr>arg_id = ''1'', todoData = noChanges\<lparr>u_priority := KeyValue High\<rparr>,
      originalTodo = updatedTodo sampleNewDate (Number 200) sampleU1\<rparr>"

definition sampleServerTodo2 :: Todo where
  "sampleServerTodo2 = sampleTodo\<lparr>priority := High, updatedAt := Number 350\<rparr>"

definition sampleCreate :: CreateTodoRequest where
  "sampleCreate =
     \<lparr>c_title = ''Buy milk'', c_description = KeyMissing, c_priority = Low, c_dueDate = KeyMissing\<rparr>"

definition sampleNewTodo :: Todo where
  "sampleNewTodo =
     \<lparr>todo_id = ''42'', title = ''Buy milk'', description = None, completed = False,
      priority = Low, dueDate = None, createdAt = Number 777, updatedAt = Number 777\<rparr>"

definition sampleClear :: UpdateTodoArg where
  "sampleClear =
     \<lparr>arg_id = ''1'',
      todoData = noChanges\<lparr>u_title := KeyValue '''', u_description := KeyUndefined,
                            u_dueDate := KeyValue ''''\<rparr>,
      originalTodo = sampleTodo\<lparr>dueDate := Some (Number 500)\<rparr>\<rparr>"

definition sampleEdit :: UpdateTodoArg where
  "sampleEdit =
     \<lparr>arg_id = ''1'',
      todoData = noChanges\<lparr>u_description := KeyValue ''three litres'', u_completed := KeyValue True,
                            u_priority := KeyValue High, u_dueDate := KeyValue ''2030-01-31''\<rparr>,
      originalTodo = sampleTodo\<rparr>"

definition sampleTodo5 :: Todo where
  "sampleTodo5 = sampleTodo\<lparr>todo_id := ''5'', title := ''Call home''\<rparr>"

definition sampleState2 :: TodoState where
  "sampleState2 = initialState\<lparr>todos := [sampleTodo, sampleTodo5]\<rparr>"

definition sampleU5 :: UpdateTodoArg where
  "sampleU5 =
     \<lparr>arg_id = ''5'', todoData = noChanges\<lparr>u_completed := KeyValue True\<rparr>,
      originalTodo = sampleTodo5\<rparr>"

definition dueA :: Todo where
  "dueA = sampleTodo\<lparr>todo_id := ''a'', dueDate := Some (Number 300)\<rparr>"

definition dueX :: Todo where
  "dueX = sampleTodo\<lparr>todo_id := ''x'', dueDate := Some NaN\<rparr>"

definition dueB :: Todo where
  "dueB = sampleTodo\<lparr>todo_id := ''b'', dueDate := Some (Number 100)\<rparr>"

definition dueC :: Todo where
  "dueC = sampleTodo\<lparr>todo_id := ''c'', dueDate := None\<rparr>"

definition dueD :: Todo where
  "dueD = sampleTodo\<lparr>todo_id := ''d'', dueDate := Some (Number 200)\<rparr>"

definition doneE :: Todo where
  "doneE = sampleTodo\<lparr>todo_id := ''e'', completed := True, dueDate := Some NaN\<rparr>"

definition sampleService :: TodoService where
  "sampleService = \<lparr>service_todos = [sampleTodo, sampleTodo5], idCounter = 6\<rparr>"

section \<open>Properties\<close>

lemmas due_defs = dueA_def dueX_def dueB_def dueC_def dueD_def doneE_def sampleTodo_def

lemmas sample_defs = sampleTodo_def noChanges_def sampleState_def sampleU1_def sampleU2_def
  sampleServerTodo2_def initialState_def

lemma findIndex_None_iff: "findIndex P xs = None \<longleftrightarrow> (\<forall>x \<in> set xs. \<not> P x)"
  by (induction xs) auto

lemma findIndex_Some_bound: "findIndex P xs = Some i \<Longrightarrow> i < length xs"
  by (induction xs arbitrary: i) (auto split: if_splits)

lemma findIndex_Some_holds: "findIndex P xs = Some i \<Longrightarrow> P (xs ! i)"
  by (induction xs arbitrary: i) (auto split: if_splits)

lemma findIndex_update_same:
  "findIndex P xs = Some i \<Longrightarrow> P y \<Longrightarrow> findIndex P (xs[i := y]) = Some i"
proof (induction xs arbitrary: i)
  case Nil
  then show ?case by simp
next
  case (Cons x xs)
  show ?case
  proof (cases "P x")
    case True
    with Cons.prems show ?thesis by simp
  next
    case False
    with Cons.prems obtain j where j: "findIndex P xs = Some j" "i = Suc j"
      by auto
    with Cons.IH [OF j(1) Cons.prems(2)] False show ?thesis by simp
  qed
qed

text \<open>
  C8. Applying the confirmed-update handler a second time with the same server entity
  leaves the whole store state (the todos and the pending-operation records included)
  as it was after the first application.
\<close>

theorem updateTodo_fulfilled_idempotent:
  "updateTodo_fulfilled serverTodo (updateTodo_fulfilled serverTodo state) =
   updateTodo_fulfilled serverTodo state"
proof (cases "findIndex (\<lambda>todo. todo_id todo = todo_id serverTodo) (todos state)")
  case None
  then show ?thesis by (simp add: updateTodo_fulfilled_def)
next
  case (Some index)
  then have "findIndex (\<lambda>todo. todo_id todo = todo_id serverTodo)
               ((todos state)[index := serverTodo]) = Some index"
    by (rule findIndex_update_same) simp
  with Some show ?thesis by (simp add: updateTodo_fulfilled_def)
qed

text \<open>
  C9. Dispatching \<open>updateTodoOptimistic\<close> with an entity whose identifier is not in the
  mirror leaves the entire store state unchanged: nothing is inserted into the todos and
  no pending-operation record is created.
\<close>

theorem updateTodoOptimistic_unknown_id:
  "todo_id payload \<notin> set (map todo_id (todos state)) \<Longrightarrow> updateTodoOptimistic payload state = state"
proof -
  assume "todo_id payload \<notin> set (map todo_id (todos state))"
  then have "findIndex (\<lambda>todo. todo_id todo = todo_id payload) (todos state) = None"
    unfolding findIndex_None_iff by (metis image_eqI set_map)
  then show ?thesis by (simp add: updateTodoOptimistic_def)
qed

theorem updateTodoOptimistic_unknown_id_witness:
  "todo_id (sampleTodo\<lparr>todo_id := ''9''\<rparr>) \<notin> set (map todo_id (todos sampleState))
   \<and> updateTodoOptimistic (sampleTodo\<lparr>todo_id := ''9''\<rparr>) sampleState = sampleState"
proof -
  have h: "todo_id (sampleTodo\<lparr>todo_id := ''9''\<rparr>) \<notin> set (map todo_id (todos sampleState))"
    by (simp add: sample_defs)
  from h updateTodoOptimistic_unknown_id [OF h] show ?thesis by simp
qed

subsection \<open>Lookup after an update in place\<close>

lemma find_update_at_findIndex:
  "findIndex P xs = Some k \<Longrightarrow> P y \<Longrightarrow> find P (xs[k := y]) = Some y"
  by (induction xs arbitrary: k) (auto split: if_splits)

lemma find_update_other:
  "k < length xs \<Longrightarrow> \<not> P (xs ! k) \<Longrightarrow> \<not> P y \<Longrightarrow> find P (xs[k := y]) = find P xs"
  by (induction xs arbitrary: k) (auto simp: nth_Cons split: nat.splits)

lemma findIndex_Some_iff_ex: "(\<exists>k. findIndex P xs = Some k) \<longleftrightarrow> (\<exists>x \<in> set xs. P x)"
  using findIndex_None_iff [of P xs] by (cases "findIndex P xs") auto

lemma map_update_same_key:
  "findIndex (\<lambda>t. f t = f y) xs = Some k \<Longrightarrow> map f (xs[k := y]) = map f xs"
  using findIndex_Some_holds [of "\<lambda>t. f t = f y" xs k] findIndex_Some_bound [of "\<lambda>t. f t = f y" xs k]
  by (simp add: map_update) (metis list_update_id nth_map length_map)

lemma ids_updateTodoOptimistic:
  "map todo_id (todos (updateTodoOptimistic p s)) = map todo_id (todos s)"
  by (cases "findIndex (\<lambda>todo. todo_id todo = todo_id p) (todos s)")
     (simp_all add: updateTodoOptimistic_def map_update_same_key)

lemma ids_updateTodo_fulfilled:
  "map todo_id (todos (updateTodo_fulfilled p s)) = map todo_id (todos s)"
  by (cases "findIndex (\<lambda>todo. todo_id todo = todo_id p) (todos s)")
     (simp_all add: updateTodo_fulfilled_def map_update_same_key)

lemma mirrorEntry_updateTodoOptimistic:
  assumes "i \<in> set (map todo_id (todos s))" "todo_id p = i"
  shows "mirrorEntry (updateTodoOptimistic p s) i = Some p"
    and "optimisticOperations (updateTodoOptimistic p s) i = Some Updating"
proof -
  from assms obtain k where k: "findIndex (\<lambda>todo. todo_id todo = todo_id p) (todos s) = Some k"
    using findIndex_Some_iff_ex [of "\<lambda>todo. todo_id todo = todo_id p" "todos s"] by auto
  then show "mirrorEntry (updateTodoOptimistic p s) i = Some p"
    using assms(2) find_update_at_findIndex [OF k, of p]
    by (simp add: updateTodoOptimistic_def mirrorEntry_def)
  from k show "optimisticOperations (updateTodoOptimistic p s) i = Some Updating"
    using assms(2) by (simp add: updateTodoOptimistic_def)
qed

lemma mirrorEntry_updateTodo_fulfilled:
  assumes "i \<in> set (map todo_id (todos s))" "todo_id p = i"
  shows "mirrorEntry (updateTodo_fulfilled p s) i = Some p"
    and "optimisticOperations (updateTodo_fulfilled p s) i = None"
proof -
  from assms obtain k where k: "findIndex (\<lambda>todo. todo_id todo = todo_id p) (todos s) = Some k"
    using findIndex_Some_iff_ex [of "\<lambda>todo. todo_id todo = todo_id p" "todos s"] by auto
  then show "mirrorEntry (updateTodo_fulfilled p s) i = Some p"
    using assms(2) find_update_at_findIndex [OF k, of p]
    by (simp add: updateTodo_fulfilled_def mirrorEntry_def)
  show "optimisticOperations (updateTodo_fulfilled p s) i = None"
    using assms(2) by (simp add: updateTodo_fulfilled_def split: option.splits)
qed



lemma settle_snd_simps:
  "snd (updateTodo_settle arg (Throws e) s) =
     updateTodo_rejected (messageOr e ''Failed to update todo'') (updateTodoOptimistic (originalTodo arg) s)"
  "snd (updateTodo_settle arg (Resolves t) s) = updateTodo_fulfilled t s"
  by (simp_all add: updateTodo_settle_def Let_def)

lemma updateTodo_rejected_keeps:
  "todos (updateTodo_rejected m s) = todos s"
  "optimisticOperations (updateTodo_rejected m s) = optimisticOperations s"
  "mirrorEntry (updateTodo_rejected m s) i = mirrorEntry s i"
  by (simp_all add: updateTodo_rejected_def mirrorEntry_def)

lemma todo_id_updatedTodo: "todo_id (updatedTodo newDate now arg) = todo_id (originalTodo arg)"
  by (simp add: updatedTodo_def)

text \<open>
  C1 (amended). Update \<open>U1\<close> and then update \<open>U2\<close> are submitted on an identifier of the
  mirror before either resolves; the call of \<open>U1\<close> fails and the call of \<open>U2\<close> succeeds
  with \<open>serverTodo2\<close>. The rollback of \<open>U1\<close> writes the snapshot \<open>originalTodo U1\<close> taken
  when \<open>U1\<close> was submitted, not the value the mirror holds at that moment. When the failure
  of \<open>U1\<close> is handled first, the mirror entry ends as \<open>serverTodo2\<close> with no pending
  record. When the success of \<open>U2\<close> is handled first, the later rollback of \<open>U1\<close>
  replaces \<open>serverTodo2\<close> by the snapshot of \<open>U1\<close>: the store keeps no record that
  \<open>U2\<close> superseded \<open>U1\<close>.
\<close>

theorem superseded_update_by_order:
  assumes present: "i \<in> set (map todo_id (todos state))"
    and U1: "todo_id (originalTodo U1) = i"
    and U2: "todo_id (originalTodo U2) = i"
    and srv: "todo_id serverTodo2 = i"
  shows "mirrorEntry (snd (updateTodo_settle U1 (Throws e)
            (updateTodo_submit newDate now2 U2 (updateTodo_submit newDate now1 U1 state)))) i
           = Some (originalTodo U1)
       \<and> mirrorEntry (failure_then_success newDate now1 now2 U1 U2 e serverTodo2 state) i
           = Some serverTodo2
       \<and> optimisticOperations (failure_then_success newDate now1 now2 U1 U2 e serverTodo2 state) i
           = None
       \<and> mirrorEntry (success_then_failure newDate now1 now2 U1 U2 e serverTodo2 state) i
           = Some (originalTodo U1)"
proof -
  let ?pending = "updateTodo_submit newDate now2 U2 (updateTodo_submit newDate now1 U1 state)"
  have p: "i \<in> set (map todo_id (todos ?pending))"
    using present by (simp only: updateTodo_submit_def ids_updateTodoOptimistic)
  let ?failed = "snd (updateTodo_settle U1 (Throws e) ?pending)"
  have f: "i \<in> set (map todo_id (todos ?failed))"
    using p by (simp only: settle_snd_simps updateTodo_rejected_keeps ids_updateTodoOptimistic)
  let ?confirmed = "snd (updateTodo_settle U2 (Resolves serverTodo2) ?pending)"
  have c: "i \<in> set (map todo_id (todos ?confirmed))"
    using p by (simp only: settle_snd_simps ids_updateTodo_fulfilled)
  have 1: "mirrorEntry ?failed i = Some (originalTodo U1)"
    unfolding settle_snd_simps updateTodo_rejected_keeps
    by (rule mirrorEntry_updateTodoOptimistic(1) [OF p U1])
  have 2: "mirrorEntry (snd (updateTodo_settle U2 (Resolves serverTodo2) ?failed)) i = Some serverTodo2"
    unfolding settle_snd_simps(2) by (rule mirrorEntry_updateTodo_fulfilled(1) [OF f srv])
  have 3: "optimisticOperations (snd (updateTodo_settle U2 (Resolves serverTodo2) ?failed)) i = None"
    unfolding settle_snd_simps(2) by (rule mirrorEntry_updateTodo_fulfilled(2) [OF f srv])
  have 4: "mirrorEntry (snd (updateTodo_settle U1 (Throws e) ?confirmed)) i = Some (originalTodo U1)"
    unfolding settle_snd_simps(1) updateTodo_rejected_keeps
    by (rule mirrorEntry_updateTodoOptimistic(1) [OF c U1])
  from 1 2 3 4 show ?thesis
    by (simp only: failure_then_success_def success_then_failure_def simp_thms)
qed

theorem superseded_update_by_order_witness:
  "''1'' \<in> set (map todo_id (todos sampleState))
   \<and> todo_id (originalTodo sampleU1) = ''1''
   \<and> todo_id (originalTodo sampleU2) = ''1''
   \<and> todo_id sampleServerTodo2 = ''1''
   \<and> mirrorEntry (failure_then_success sampleNewDate (Number 200) (Number 300) sampleU1 sampleU2
        (ErrorObject ''Failed to update todo'') sampleServerTodo2 sampleState) ''1''
       = Some sampleServerTodo2
   \<and> mirrorEntry (success_then_failure sampleNewDate (Number 200) (Number 300) sampleU1 sampleU2
        (ErrorObject ''Failed to update todo'') sampleServerTodo2 sampleState) ''1''
       = Some sampleTodo"
proof -
  have a: "''1'' \<in> set (map todo_id (todos sampleState))"
    by (simp add: sample_defs)
  have b: "todo_id (originalTodo sampleU1) = ''1''"
    by (simp add: sample_defs)
  have c: "todo_id (originalTodo sampleU2) = ''1''"
    by (simp add: sample_defs updatedTodo_def)
  have d: "todo_id sampleServerTodo2 = ''1''"
    by (simp add: sample_defs)
  have e: "originalTodo sampleU1 = sampleTodo"
    by (simp add: sampleU1_def)
  from superseded_update_by_order
    [OF a b c d, of "ErrorObject ''Failed to update todo''" sampleNewDate "Number 300" "Number 200"]
  have "mirrorEntry (failure_then_success sampleNewDate (Number 200) (Number 300) sampleU1 sampleU2
        (ErrorObject ''Failed to update todo'') sampleServerTodo2 sampleState) ''1''
       = Some sampleServerTodo2"
    and "mirrorEntry (success_then_failure sampleNewDate (Number 200) (Number 300) sampleU1 sampleU2
        (ErrorObject ''Failed to update todo'') sampleServerTodo2 sampleState) ''1''
       = Some sampleTodo"
    by (simp_all only: e simp_thms)
  with a b c d show ?thesis by (intro conjI)
qed

text \<open>
  C1 as stated fails: with the success of \<open>U2\<close> handled before the failure of \<open>U1\<close>,
  the mirror entry is not the entity the server confirmed for \<open>U2\<close>.
\<close>

theorem superseded_update_counterexample:
  "mirrorEntry (success_then_failure sampleNewDate (Number 200) (Number 300) sampleU1 sampleU2
      (ErrorObject ''Failed to update todo'') sampleServerTodo2 sampleState) ''1''
   \<noteq> Some sampleServerTodo2"
  by (simp add: success_then_failure_def updateTodo_settle_def updateTodo_submit_def
      updateTodoOptimistic_def updateTodo_fulfilled_def updateTodo_rejected_def updatedTodo_def
      mirrorEntry_def sample_defs Let_def)

text \<open>
  C2. After a single update whose call fails, the mirror entry is the baseline again, but
  the pending-operation record of the identifier is not cleared: the rollback goes through
  \<open>updateTodoOptimistic\<close>, which marks the identifier as updating, and
  \<open>updateTodo_rejected\<close> only stores the message. The failure paths of create
  (\<open>removeOptimisticTodo\<close>) and of delete (\<open>unmarkTodoAsDeleting\<close>) do clear it.
\<close>

theorem failed_update_stays_pending:
  "optimisticOperations
     (snd (updateTodo_settle sampleU1 (Throws (ErrorObject ''Failed to update todo''))
        (updateTodo_submit sampleNewDate (Number 200) sampleU1 sampleState))) ''1'' = Some Updating
   \<and> mirrorEntry
     (snd (updateTodo_settle sampleU1 (Throws (ErrorObject ''Failed to update todo''))
        (updateTodo_submit sampleNewDate (Number 200) sampleU1 sampleState))) ''1'' = Some sampleTodo"
  by (simp add: updateTodo_settle_def updateTodo_submit_def
      updateTodoOptimistic_def updateTodo_rejected_def updatedTodo_def
      mirrorEntry_def sample_defs Let_def)

subsection \<open>Creating\<close>

lemma findIndex_append_fresh:
  "\<forall>x \<in> set xs. \<not> P x \<Longrightarrow> P y \<Longrightarrow> findIndex P (xs @ [y]) = Some (length xs)"
  by (induction xs) auto

lemma find_append_fresh:
  "\<forall>x \<in> set xs. \<not> P x \<Longrightarrow> find P (xs @ ys) = find P ys"
  by (induction xs) auto

lemma find_None_fresh: "\<forall>x \<in> set xs. \<not> P x \<Longrightarrow> find P xs = None"
  by (induction xs) auto

text \<open>
  C3 (amended). A create is submitted with a temporary identifier that no todo of the
  mirror carries. Immediately afterwards the mirror is the earlier todos followed by the
  optimistic todo, which carries the temporary identifier and is not completed, and the
  identifier is marked as creating. When the remote create succeeds with \<open>newTodo\<close>, in
  whatever state \<open>later\<close> the store is by then, the pending record of the temporary
  identifier is cleared and the action carries the temporary identifier and \<open>newTodo\<close>;
  if the mirror still has a todo with the temporary identifier, the first such todo is
  replaced in place by \<open>newTodo\<close> as the server returned it and nothing else changes; if
  it has none (a fetched list has replaced the todos in between), the todos stay as they
  are and \<open>newTodo\<close> is not inserted. When nothing happens between the two steps, the
  todos end as the earlier ones followed by \<open>newTodo\<close> alone, and no entry with the
  temporary identifier is left if the server's identifier differs from it.
\<close>

theorem createTodo_submit_and_settle:
  assumes fresh: "tempId \<notin> set (map todo_id (todos state))"
  shows "createTodo_submit newDate tempId now request state
           = state\<lparr>todos := todos state @ [optimisticTodo newDate tempId now request],
                   optimisticOperations := (optimisticOperations state)(tempId \<mapsto> Creating)\<rparr>
       \<and> todo_id (optimisticTodo newDate tempId now request) = tempId
       \<and> completed (optimisticTodo newDate tempId now request) = False
       \<and> mirrorEntry (createTodo_submit newDate tempId now request state) tempId
           = Some (optimisticTodo newDate tempId now request)
       \<and> fst (createTodo_settle tempId request (Resolves newTodo) later)
           = Inr \<lparr>action_type = ''todos/createTodo/fulfilled'',
                  action_payload = (tempId, newTodo), meta_arg = request\<rparr>
       \<and> (findIndex (\<lambda>todo. todo_id todo = tempId) (todos later) = Some k \<longrightarrow>
            snd (createTodo_settle tempId request (Resolves newTodo) later)
              = later\<lparr>todos := (todos later)[k := newTodo],
                      optimisticOperations := (optimisticOperations later)(tempId := None)\<rparr>)
       \<and> (findIndex (\<lambda>todo. todo_id todo = tempId) (todos later) = None \<longrightarrow>
            snd (createTodo_settle tempId request (Resolves newTodo) later)
              = later\<lparr>optimisticOperations := (optimisticOperations later)(tempId := None)\<rparr>)
       \<and> todos (snd (createTodo_settle tempId request (Resolves newTodo)
                (createTodo_submit newDate tempId now request state))) = todos state @ [newTodo]
       \<and> (todo_id newTodo \<noteq> tempId \<longrightarrow>
            mirrorEntry (snd (createTodo_settle tempId request (Resolves newTodo)
                (createTodo_submit newDate tempId now request state))) tempId = None)"
proof -
  let ?opt = "optimisticTodo newDate tempId now request"
  let ?P = "\<lambda>todo. todo_id todo = tempId"
  let ?submitted = "createTodo_submit newDate tempId now request state"
  have no: "\<forall>x \<in> set (todos state). \<not> ?P x"
    using fresh by auto
  have id_opt: "todo_id ?opt = tempId"
    by (simp add: optimisticTodo_def)
  have idx: "findIndex ?P (todos state @ [?opt]) = Some (length (todos state))"
    using no id_opt by (rule findIndex_append_fresh)
  have 1: "?submitted
           = state\<lparr>todos := todos state @ [?opt],
                   optimisticOperations := (optimisticOperations state)(tempId \<mapsto> Creating)\<rparr>"
    using id_opt by (simp add: createTodo_submit_def addTodoOptimistic_def)
  have sub: "todos ?submitted = todos state @ [?opt]"
    by (simp add: 1)
  have 2: "completed ?opt = False"
    by (simp add: optimisticTodo_def)
  have 3: "mirrorEntry ?submitted tempId = Some ?opt"
    unfolding mirrorEntry_def sub using find_append_fresh [OF no, of "[?opt]"] id_opt by simp
  have 4: "fst (createTodo_settle tempId request (Resolves newTodo) later)
           = Inr \<lparr>action_type = ''todos/createTodo/fulfilled'',
                  action_payload = (tempId, newTodo), meta_arg = request\<rparr>"
    by (simp add: createTodo_settle_def)
  have 5: "findIndex ?P (todos later) = Some k \<longrightarrow>
            snd (createTodo_settle tempId request (Resolves newTodo) later)
              = later\<lparr>todos := (todos later)[k := newTodo],
                      optimisticOperations := (optimisticOperations later)(tempId := None)\<rparr>"
    by (simp add: createTodo_settle_def createTodo_fulfilled_def)
  have 6: "findIndex ?P (todos later) = None \<longrightarrow>
            snd (createTodo_settle tempId request (Resolves newTodo) later)
              = later\<lparr>optimisticOperations := (optimisticOperations later)(tempId := None)\<rparr>"
    by (simp add: createTodo_settle_def createTodo_fulfilled_def)
  have 7: "todos (snd (createTodo_settle tempId request (Resolves newTodo) ?submitted))
             = todos state @ [newTodo]"
    using idx by (simp add: createTodo_settle_def createTodo_fulfilled_def sub)
  have 8: "todo_id newTodo \<noteq> tempId \<longrightarrow>
            mirrorEntry (snd (createTodo_settle tempId request (Resolves newTodo) ?submitted))
              tempId = None"
  proof
    assume "todo_id newTodo \<noteq> tempId"
    with no have "\<forall>x \<in> set (todos state @ [newTodo]). \<not> ?P x"
      by auto
    then show "mirrorEntry (snd (createTodo_settle tempId request (Resolves newTodo) ?submitted))
              tempId = None"
      unfolding mirrorEntry_def 7 by (rule find_None_fresh)
  qed
  from 1 id_opt 2 3 4 5 6 7 8 show ?thesis
    by (intro conjI)
qed

theorem createTodo_submit_and_settle_witness:
  "''temp-1-abc'' \<notin> set (map todo_id (todos sampleState))
   \<and> findIndex (\<lambda>todo. todo_id todo = ''temp-1-abc'')
        (todos (createTodo_submit sampleNewDate ''temp-1-abc'' (Number 700) sampleCreate
           sampleState)) = Some 1
   \<and> todos (snd (createTodo_settle ''temp-1-abc'' sampleCreate (Resolves sampleNewTodo)
        (createTodo_submit sampleNewDate ''temp-1-abc'' (Number 700) sampleCreate sampleState)))
      = [sampleTodo, sampleNewTodo]
   \<and> todo_id sampleNewTodo \<noteq> ''temp-1-abc''
   \<and> mirrorEntry (snd (createTodo_settle ''temp-1-abc'' sampleCreate (Resolves sampleNewTodo)
        (createTodo_submit sampleNewDate ''temp-1-abc'' (Number 700) sampleCreate sampleState)))
        ''temp-1-abc'' = None
   \<and> findIndex (\<lambda>todo. todo_id todo = ''temp-1-abc'') (todos sampleState) = None
   \<and> snd (createTodo_settle ''temp-1-abc'' sampleCreate (Resolves sampleNewTodo) sampleState)
      = sampleState\<lparr>optimisticOperations :=
          (optimisticOperations sampleState)(''temp-1-abc'' := None)\<rparr>"
proof -
  let ?submitted =
    "createTodo_submit sampleNewDate ''temp-1-abc'' (Number 700) sampleCreate sampleState"
  have a: "''temp-1-abc'' \<notin> set (map todo_id (todos sampleState))"
    by (simp add: sample_defs)
  have b: "todo_id sampleNewTodo \<noteq> ''temp-1-abc''"
    by (simp add: sampleNewTodo_def)
  have k: "findIndex (\<lambda>todo. todo_id todo = ''temp-1-abc'') (todos ?submitted) = Some 1"
    by (simp add: createTodo_submit_def addTodoOptimistic_def optimisticTodo_def sample_defs)
  have n: "findIndex (\<lambda>todo. todo_id todo = ''temp-1-abc'') (todos sampleState) = None"
    by (simp add: sample_defs)
  have t: "todos ?submitted
      = [sampleTodo, optimisticTodo sampleNewDate ''temp-1-abc'' (Number 700) sampleCreate]"
    by (simp add: createTodo_submit_def addTodoOptimistic_def sampleState_def initialState_def)
  note direct = createTodo_submit_and_settle
    [OF a, of sampleNewDate "Number 700" sampleCreate sampleNewTodo ?submitted 1]
  note other = createTodo_submit_and_settle
    [OF a, of sampleNewDate "Number 700" sampleCreate sampleNewTodo sampleState 0]
  from direct k have "snd (createTodo_settle ''temp-1-abc'' sampleCreate (Resolves sampleNewTodo)
        ?submitted)
      = ?submitted\<lparr>todos := (todos ?submitted)[1 := sampleNewTodo],
          optimisticOperations := (optimisticOperations ?submitted)(''temp-1-abc'' := None)\<rparr>"
    by blast
  then have 1:
    "todos (snd (createTodo_settle ''temp-1-abc'' sampleCreate (Resolves sampleNewTodo)
        ?submitted)) = [sampleTodo, sampleNewTodo]"
    by (simp add: t)
  from direct b have 2:
    "mirrorEntry (snd (createTodo_settle ''temp-1-abc'' sampleCreate (Resolves sampleNewTodo)
        ?submitted)) ''temp-1-abc'' = None"
    by blast
  from other n have 3:
    "snd (createTodo_settle ''temp-1-abc'' sampleCreate (Resolves sampleNewTodo) sampleState)
      = sampleState\<lparr>optimisticOperations :=
          (optimisticOperations sampleState)(''temp-1-abc'' := None)\<rparr>"
    by blast
  from a k 1 b 2 n 3 show ?thesis
    by (intro conjI)
qed

text \<open>
  C3 as stated fails: when the list fetched from the server replaces the todos between
  the submission and the answer of the create, the optimistic todo is gone, the success
  handler finds no temporary entry to replace, and the created todo 42 never reaches the
  mirror.
\<close>

theorem createTodo_lost_after_fetch_counterexample:
  "todos (snd (createTodo_settle ''temp-1-abc'' sampleCreate (Resolves sampleNewTodo)
     (fetchTodos_fulfilled [sampleTodo]
        (createTodo_submit sampleNewDate ''temp-1-abc'' (Number 700) sampleCreate
           sampleState)))) = [sampleTodo]
   \<and> todo_id sampleNewTodo = ''42''
   \<and> mirrorEntry (snd (createTodo_settle ''temp-1-abc'' sampleCreate (Resolves sampleNewTodo)
     (fetchTodos_fulfilled [sampleTodo]
        (createTodo_submit sampleNewDate ''temp-1-abc'' (Number 700) sampleCreate
           sampleState)))) ''42'' = None"
  by (simp add: createTodo_settle_def createTodo_fulfilled_def fetchTodos_fulfilled_def
      createTodo_submit_def addTodoOptimistic_def mirrorEntry_def sampleNewTodo_def
      sample_defs)

subsection \<open>Deleting\<close>




subsection \<open>The overlay of an update\<close>

text \<open>
  C5 (amended). The optimistic entity of an update is the baseline with the identifier
  and the creation time kept, the modification time set to the current time, and each of
  title, description, completed, priority and due date overlaid: a field that reads as
  \<^verbatim>\<open>undefined\<close>, whether its key is missing or is there with the value
  \<^verbatim>\<open>undefined\<close>, keeps the baseline value; a field with a value overwrites it, the
  empty string included, which becomes the title or the description as it is and clears
  the due date; any other due-date string is parsed.
\<close>

theorem updatedTodo_overlay:
  "todo_id (updatedTodo newDate now arg) = todo_id (originalTodo arg)
   \<and> createdAt (updatedTodo newDate now arg) = createdAt (originalTodo arg)
   \<and> updatedAt (updatedTodo newDate now arg) = now
   \<and> (read (u_title (todoData arg)) = None \<longrightarrow>
        title (updatedTodo newDate now arg) = title (originalTodo arg))
   \<and> (read (u_description (todoData arg)) = None \<longrightarrow>
        description (updatedTodo newDate now arg) = description (originalTodo arg))
   \<and> (read (u_completed (todoData arg)) = None \<longrightarrow>
        completed (updatedTodo newDate now arg) = completed (originalTodo arg))
   \<and> (read (u_priority (todoData arg)) = None \<longrightarrow>
        priority (updatedTodo newDate now arg) = priority (originalTodo arg))
   \<and> (read (u_dueDate (todoData arg)) = None \<longrightarrow>
        dueDate (updatedTodo newDate now arg) = dueDate (originalTodo arg))
   \<and> (\<forall>v. u_title (todoData arg) = KeyValue v \<longrightarrow> title (updatedTodo newDate now arg) = v)
   \<and> (\<forall>v. u_description (todoData arg) = KeyValue v \<longrightarrow>
        description (updatedTodo newDate now arg) = Some v)
   \<and> (\<forall>v. u_completed (todoData arg) = KeyValue v \<longrightarrow>
        completed (updatedTodo newDate now arg) = v)
   \<and> (\<forall>v. u_priority (todoData arg) = KeyValue v \<longrightarrow>
        priority (updatedTodo newDate now arg) = v)
   \<and> (u_dueDate (todoData arg) = KeyValue '''' \<longrightarrow>
        dueDate (updatedTodo newDate now arg) = None)
   \<and> (\<forall>v. u_dueDate (todoData arg) = KeyValue v \<and> v \<noteq> '''' \<longrightarrow>
        dueDate (updatedTodo newDate now arg) = Some (newDate v))"
  by (simp add: updatedTodo_def truthy_def)

theorem updatedTodo_overlay_witness:
  "read (u_completed (todoData sampleClear)) = None
   \<and> completed (updatedTodo sampleNewDate (Number 200) sampleClear) = completed (originalTodo sampleClear)
   \<and> read (u_priority (todoData sampleClear)) = None
   \<and> priority (updatedTodo sampleNewDate (Number 200) sampleClear) = priority (originalTodo sampleClear)
   \<and> read (u_description (todoData sampleClear)) = None
   \<and> description (updatedTodo sampleNewDate (Number 200) sampleClear) = Some ''two litres''
   \<and> u_title (todoData sampleClear) = KeyValue ''''
   \<and> title (updatedTodo sampleNewDate (Number 200) sampleClear) = ''''
   \<and> u_dueDate (todoData sampleClear) = KeyValue ''''
   \<and> dueDate (originalTodo sampleClear) = Some (Number 500)
   \<and> dueDate (updatedTodo sampleNewDate (Number 200) sampleClear) = None
   \<and> read (u_title (todoData sampleEdit)) = None
   \<and> title (updatedTodo sampleNewDate (Number 200) sampleEdit) = ''Buy milk''
   \<and> u_description (todoData sampleEdit) = KeyValue ''three litres''
   \<and> description (updatedTodo sampleNewDate (Number 200) sampleEdit) = Some ''three litres''
   \<and> u_completed (todoData sampleEdit) = KeyValue True
   \<and> completed (updatedTodo sampleNewDate (Number 200) sampleEdit) = True
   \<and> u_priority (todoData sampleEdit) = KeyValue High
   \<and> priority (updatedTodo sampleNewDate (Number 200) sampleEdit) = High
   \<and> u_dueDate (todoData sampleEdit) = KeyValue ''2030-01-31''
   \<and> dueDate (updatedTodo sampleNewDate (Number 200) sampleEdit) = Some (Number 1896048000000)"
proof -
  have clear: "read (u_completed (todoData sampleClear)) = None"
    "read (u_priority (todoData sampleClear)) = None"
    "read (u_description (todoData sampleClear)) = None"
    "u_title (todoData sampleClear) = KeyValue ''''"
    "u_dueDate (todoData sampleClear) = KeyValue ''''"
    "description (originalTodo sampleClear) = Some ''two litres''"
    "dueDate (originalTodo sampleClear) = Some (Number 500)"
    by (simp_all add: sampleClear_def sample_defs)
  have edit: "read (u_title (todoData sampleEdit)) = None"
    "u_description (todoData sampleEdit) = KeyValue ''three litres''"
    "u_completed (todoData sampleEdit) = KeyValue True"
    "u_priority (todoData sampleEdit) = KeyValue High"
    "u_dueDate (todoData sampleEdit) = KeyValue ''2030-01-31''"
    "title (originalTodo sampleEdit) = ''Buy milk''"
    "sampleNewDate ''2030-01-31'' = Number 1896048000000"
    by (simp_all add: sampleEdit_def sample_defs sampleNewDate_def)
  from updatedTodo_overlay [of sampleNewDate "Number 200" sampleClear]
    updatedTodo_overlay [of sampleNewDate "Number 200" sampleEdit] clear edit
  show ?thesis by auto
qed

text \<open>
  C5 as stated fails: a description key that is present with an absent value does not
  overwrite the baseline description.
\<close>

theorem updatedTodo_undefined_counterexample:
  "hasKey (u_description (todoData sampleClear))
   \<and> read (u_description (todoData sampleClear)) = None
   \<and> description (originalTodo sampleClear) = Some ''two litres''
   \<and> description (updatedTodo sampleNewDate (Number 200) sampleClear) = Some ''two litres''"
  by (simp add: updatedTodo_def sampleClear_def sample_defs)

subsection \<open>Failures\<close>

lemma find_filter_other:
  "j \<noteq> i \<Longrightarrow> find (\<lambda>t. f t = j) (filter (\<lambda>t. f t \<noteq> i) xs) = find (\<lambda>t. f t = j) xs"
  by (induction xs) auto

lemma updateTodoOptimistic_other:
  assumes "todo_id p \<noteq> j"
  shows "mirrorEntry (updateTodoOptimistic p s) j = mirrorEntry s j"
    and "optimisticOperations (updateTodoOptimistic p s) j = optimisticOperations s j"
proof -
  show "mirrorEntry (updateTodoOptimistic p s) j = mirrorEntry s j"
  proof (cases "findIndex (\<lambda>todo. todo_id todo = todo_id p) (todos s)")
    case None
    then show ?thesis by (simp add: updateTodoOptimistic_def)
  next
    case (Some k)
    from findIndex_Some_bound [OF Some] findIndex_Some_holds [OF Some] assms
    have "find (\<lambda>todo. todo_id todo = j) ((todos s)[k := p]) = find (\<lambda>todo. todo_id todo = j) (todos s)"
      by (intro find_update_other) auto
    with Some show ?thesis by (simp add: updateTodoOptimistic_def mirrorEntry_def)
  qed
  show "optimisticOperations (updateTodoOptimistic p s) j = optimisticOperations s j"
    using assms by (simp add: updateTodoOptimistic_def split: option.splits)
qed

text \<open>
  C6 (amended). When the remote call of a create, update, delete or toggle fails, the
  thunk resolves to a rejected action whose type names the kind of the mutation and whose
  payload is the message: the message of the thrown error, or the fallback text of the
  thunk. The same message is stored in \<open>error\<close>, so the failure is never dropped. For an
  update, a delete and a toggle the action carries the identifier, in the argument of the
  thunk: a failed toggle of todo 5 is surfaced with the todo 5. For a create the argument
  is the request, and the temporary identifier of the todo that was rolled back is in no
  part of the action. The mirror entry and the pending record of every identifier other
  than the one of the mutation are unchanged.
\<close>

theorem remote_failure_surfaced:
  assumes "j \<noteq> tempId" "j \<noteq> todo_id (originalTodo arg)" "j \<noteq> todoId" "j \<noteq> todo_id todo"
  shows "fst (createTodo_settle tempId request (Throws e) state)
           = Inl \<lparr>action_type = ''todos/createTodo/rejected'',
                  action_payload = messageOr e ''Failed to create todo'', meta_arg = request\<rparr>
       \<and> error (snd (createTodo_settle tempId request (Throws e) state))
           = Some (messageOr e ''Failed to create todo'')
       \<and> mirrorEntry (snd (createTodo_settle tempId request (Throws e) state)) j
           = mirrorEntry state j
       \<and> optimisticOperations (snd (createTodo_settle tempId request (Throws e) state)) j
           = optimisticOperations state j
       \<and> fst (updateTodo_settle arg (Throws e) state)
           = Inl \<lparr>action_type = ''todos/updateTodo/rejected'',
                  action_payload = messageOr e ''Failed to update todo'', meta_arg = arg\<rparr>
       \<and> error (snd (updateTodo_settle arg (Throws e) state))
           = Some (messageOr e ''Failed to update todo'')
       \<and> mirrorEntry (snd (updateTodo_settle arg (Throws e) state)) j = mirrorEntry state j
       \<and> optimisticOperations (snd (updateTodo_settle arg (Throws e) state)) j
           = optimisticOperations state j
       \<and> fst (deleteTodo_settle todoId (Throws e) state)
           = Inl \<lparr>action_type = ''todos/deleteTodo/rejected'',
                  action_payload = messageOr e ''Failed to delete todo'', meta_arg = todoId\<rparr>
       \<and> error (snd (deleteTodo_settle todoId (Throws e) state))
           = Some (messageOr e ''Failed to delete todo'')
       \<and> mirrorEntry (snd (deleteTodo_settle todoId (Throws e) state)) j = mirrorEntry state j
       \<and> optimisticOperations (snd (deleteTodo_settle todoId (Throws e) state)) j
           = optimisticOperations state j
       \<and> fst (toggleTodoComplete_settle todo (Throws e) state)
           = Inl \<lparr>action_type = ''todos/toggleTodoComplete/rejected'',
                  action_payload = messageOr e ''Failed to update todo'', meta_arg = todo\<rparr>
       \<and> error (snd (toggleTodoComplete_settle todo (Throws e) state))
           = Some (messageOr e ''Failed to update todo'')
       \<and> mirrorEntry (snd (toggleTodoComplete_settle todo (Throws e) state)) j = mirrorEntry state j
       \<and> optimisticOperations (snd (toggleTodoComplete_settle todo (Throws e) state)) j
           = optimisticOperations state j"
proof -
  have create: "mirrorEntry (removeOptimisticTodo tempId state) j = mirrorEntry state j"
    "optimisticOperations (removeOptimisticTodo tempId state) j = optimisticOperations state j"
    using assms(1) by (simp_all add: removeOptimisticTodo_def mirrorEntry_def find_filter_other)
  have update: "mirrorEntry (updateTodoOptimistic (originalTodo arg) state) j = mirrorEntry state j"
    "optimisticOperations (updateTodoOptimistic (originalTodo arg) state) j = optimisticOperations state j"
    using assms(2) by (simp_all add: updateTodoOptimistic_other)
  have toggle: "mirrorEntry (updateTodoOptimistic todo state) j = mirrorEntry state j"
    "optimisticOperations (updateTodoOptimistic todo state) j = optimisticOperations state j"
    using assms(4) by (simp_all add: updateTodoOptimistic_other)
  have rej: "\<And>m s. mirrorEntry (s\<lparr>error := Some m\<rparr>) j = mirrorEntry s j"
    by (simp add: mirrorEntry_def)
  have unmark: "\<And>m s. mirrorEntry (s\<lparr>optimisticOperations := m\<rparr>) j = mirrorEntry s j"
    by (simp add: mirrorEntry_def)
  show ?thesis
    using assms(1,3) create update toggle
    by (simp add: createTodo_settle_def updateTodo_settle_def deleteTodo_settle_def
        toggleTodoComplete_settle_def createTodo_rejected_def updateTodo_rejected_def
        deleteTodo_rejected_def toggleTodoComplete_rejected_def Let_def rej unmark
        unmarkTodoAsDeleting_def)
qed

theorem remote_failure_surfaced_witness:
  "''1'' \<noteq> ''temp-1-abc'' \<and> ''1'' \<noteq> todo_id (originalTodo sampleU5) \<and> ''1'' \<noteq> ''5''
   \<and> ''1'' \<noteq> todo_id sampleTodo5
   \<and> fst (toggleTodoComplete_settle sampleTodo5 (Throws (ErrorObject ''Failed to update todo''))
         sampleState2)
       = Inl \<lparr>action_type = ''todos/toggleTodoComplete/rejected'',
              action_payload = ''Failed to update todo'', meta_arg = sampleTodo5\<rparr>
   \<and> todo_id sampleTodo5 = ''5''
   \<and> error (snd (toggleTodoComplete_settle sampleTodo5
         (Throws (ErrorObject ''Failed to update todo'')) sampleState2))
       = Some ''Failed to update todo''
   \<and> error (snd (deleteTodo_settle ''5'' (Throws OtherValue) sampleState2))
       = Some ''Failed to delete todo''
   \<and> mirrorEntry (snd (updateTodo_settle sampleU5 (Throws OtherValue) sampleState2)) ''1''
       = Some sampleTodo"
proof -
  have a: "''1'' \<noteq> ''temp-1-abc''" and c: "''1'' \<noteq> ''5''"
    by simp_all
  have b: "''1'' \<noteq> todo_id (originalTodo sampleU5)" and d: "''1'' \<noteq> todo_id sampleTodo5"
    by (simp_all add: sampleU5_def sampleTodo5_def)
  have i: "todo_id sampleTodo5 = ''5''"
    by (simp add: sampleTodo5_def)
  have m: "mirrorEntry sampleState2 ''1'' = Some sampleTodo"
    by (simp add: mirrorEntry_def sampleState2_def sampleTodo_def)
  from remote_failure_surfaced
      [OF a b c d, of sampleCreate "ErrorObject ''Failed to update todo''" sampleState2]
    remote_failure_surfaced [OF a b c d, of sampleCreate OtherValue sampleState2] a b c d i m
  show ?thesis by simp
qed

text \<open>
  C6 as stated fails: two failed creates of the same request, whose optimistic todos had
  different temporary identifiers, surface the same type, payload and argument and store
  the same error; the temporary identifier of the affected entity is in none of them.
\<close>

theorem remote_failure_create_untagged_counterexample:
  "''temp-1-abc'' \<noteq> ''temp-2-xyz''
   \<and> mirrorEntry (createTodo_submit sampleNewDate ''temp-1-abc'' (Number 700) sampleCreate
        sampleState) ''temp-2-xyz'' = None
   \<and> mirrorEntry (createTodo_submit sampleNewDate ''temp-2-xyz'' (Number 700) sampleCreate
        sampleState) ''temp-1-abc'' = None
   \<and> fst (createTodo_settle ''temp-1-abc'' sampleCreate
          (Throws (ErrorObject ''Failed to create todo''))
          (createTodo_submit sampleNewDate ''temp-1-abc'' (Number 700) sampleCreate sampleState))
     = fst (createTodo_settle ''temp-2-xyz'' sampleCreate
          (Throws (ErrorObject ''Failed to create todo''))
          (createTodo_submit sampleNewDate ''temp-2-xyz'' (Number 700) sampleCreate sampleState))
   \<and> error (snd (createTodo_settle ''temp-1-abc'' sampleCreate
          (Throws (ErrorObject ''Failed to create todo''))
          (createTodo_submit sampleNewDate ''temp-1-abc'' (Number 700) sampleCreate sampleState)))
     = error (snd (createTodo_settle ''temp-2-xyz'' sampleCreate
          (Throws (ErrorObject ''Failed to create todo''))
          (createTodo_submit sampleNewDate ''temp-2-xyz'' (Number 700) sampleCreate sampleState)))"
  by (simp add: createTodo_settle_def createTodo_rejected_def Let_def createTodo_submit_def
      addTodoOptimistic_def optimisticTodo_def mirrorEntry_def sample_defs)

subsection \<open>The projection\<close>

lemma mset_insertBy: "mset (insertBy c a xs) = add_mset a (mset xs)"
  by (induction xs) auto

lemma mset_array_sort: "mset (array_sort c xs) = mset xs"
  unfolding array_sort_def by (induction xs) (auto simp: mset_insertBy)

lemma set_insertBy: "set (insertBy c a xs) = insert a (set xs)"
  using mset_insertBy [of c a xs] by (metis set_mset_add_mset_insert set_mset_mset)

text \<open>
  Insertion keeps a list sorted by \<open>R\<close> when, on the elements that satisfy \<open>V\<close>, the
  comparator decides \<open>R\<close>.
\<close>

lemma sorted_wrt_insertBy:
  assumes before: "\<And>a b. V a \<Longrightarrow> V b \<Longrightarrow> sortCompare (c a b) \<le> 0 \<Longrightarrow> R a b"
    and after: "\<And>a b. V a \<Longrightarrow> V b \<Longrightarrow> \<not> sortCompare (c a b) \<le> 0 \<Longrightarrow> R b a"
    and trans: "\<And>a b d. R a b \<Longrightarrow> R b d \<Longrightarrow> R a d"
  shows "V a \<Longrightarrow> list_all V xs \<Longrightarrow> sorted_wrt R xs \<Longrightarrow> sorted_wrt R (insertBy c a xs)"
proof (induction xs)
  case Nil
  then show ?case by simp
next
  case (Cons b bs)
  from Cons.prems have Vb: "V b" and Vbs: "list_all V bs"
    by simp_all
  show ?case
  proof (cases "sortCompare (c a b) \<le> 0")
    case True
    with Cons.prems(1) Vb have "R a b" by (intro before)
    with Cons.prems(3) trans show ?thesis
      using True by auto
  next
    case False
    with Cons.prems(1) Vb have "R b a" by (intro after)
    with Cons.IH [OF Cons.prems(1) Vbs] Cons.prems(3) show ?thesis
      using False by (auto simp: set_insertBy)
  qed
qed

lemma list_all_insertBy: "list_all V (insertBy c a xs) = (V a \<and> list_all V xs)"
  by (auto simp: list_all_iff set_insertBy)

lemma sorted_wrt_array_sort:
  assumes "\<And>a b. V a \<Longrightarrow> V b \<Longrightarrow> sortCompare (c a b) \<le> 0 \<Longrightarrow> R a b"
    and "\<And>a b. V a \<Longrightarrow> V b \<Longrightarrow> \<not> sortCompare (c a b) \<le> 0 \<Longrightarrow> R b a"
    and "\<And>a b d. R a b \<Longrightarrow> R b d \<Longrightarrow> R a d"
  shows "list_all V xs \<Longrightarrow> sorted_wrt R (array_sort c xs) \<and> list_all V (array_sort c xs)"
  unfolding array_sort_def
proof (induction xs)
  case Nil
  then show ?case by simp
next
  case (Cons x xs)
  then have "V x" and "list_all V xs"
    by simp_all
  with Cons.IH sorted_wrt_insertBy [of V c R x "foldr (insertBy c) xs []", OF assms]
  show ?case by (simp add: list_all_insertBy)
qed

lemma rank_priorityOrder: "priorityOrder p = Number (int (rank p) + 1)"
  by (cases p) simp_all

lemma lessEq_trans: "lessEq x y \<Longrightarrow> lessEq y z \<Longrightarrow> lessEq x z"
  by (cases x; cases y; cases z) simp_all

lemma sorted_sortTodos:
  assumes valid: "list_all (sortKeyValid s) ts"
  shows "sorted_wrt (inOrder s) (sortTodos ts s)"
proof (cases s)
  case SortCreated
  let ?V = "\<lambda>todo. createdAt todo \<noteq> NaN"
  let ?R = "\<lambda>a b. lessEq (createdAt b) (createdAt a)"
  have before: "?R a b" if "?V a" "?V b" "sortCompare (compareCreated a b) \<le> 0" for a b
    using that by (cases "createdAt a"; cases "createdAt b") (simp_all add: compareCreated_def)
  have after: "?R b a" if "?V a" "?V b" "\<not> sortCompare (compareCreated a b) \<le> 0" for a b
    using that by (cases "createdAt a"; cases "createdAt b") (simp_all add: compareCreated_def)
  have trans: "?R a d" if "?R a b" "?R b d" for a b d
    using that(2) that(1) by (rule lessEq_trans)
  from valid SortCreated have "list_all ?V ts"
    by (simp add: sortKeyValid_def [abs_def])
  from sorted_wrt_array_sort [of ?V compareCreated ?R ts, OF before after trans this]
  have "sorted_wrt ?R (array_sort compareCreated ts)"
    by (rule conjunct1)
  with SortCreated show ?thesis
    by (simp add: sortTodos_def inOrder_def [abs_def])
next
  case SortPriority
  let ?V = "\<lambda>todo::Todo. True"
  let ?R = "\<lambda>a b. rank (priority b) \<le> rank (priority a)"
  have before: "?R a b" if "?V a" "?V b" "sortCompare (comparePriority a b) \<le> 0" for a b
    using that by (simp add: comparePriority_def rank_priorityOrder)
  have after: "?R b a" if "?V a" "?V b" "\<not> sortCompare (comparePriority a b) \<le> 0" for a b
    using that by (simp add: comparePriority_def rank_priorityOrder)
  have trans: "?R a d" if "?R a b" "?R b d" for a b d
    using that by simp
  have "list_all ?V ts"
    by (simp add: list_all_iff)
  from sorted_wrt_array_sort [of ?V comparePriority ?R ts, OF before after trans this]
  have "sorted_wrt ?R (array_sort comparePriority ts)"
    by (rule conjunct1)
  with SortPriority show ?thesis
    by (simp add: sortTodos_def inOrder_def [abs_def])
next
  case SortDueDate
  let ?V = "\<lambda>todo. dueDate todo \<noteq> Some NaN"
  let ?R = "\<lambda>a b. case dueDate b of None \<Rightarrow> True
           | Some y \<Rightarrow> (case dueDate a of None \<Rightarrow> False | Some x \<Rightarrow> lessEq x y)"
  have before: "?R a b" if "?V a" "?V b" "sortCompare (compareDueDate a b) \<le> 0" for a b
  proof (cases "dueDate b")
    case None
    then show ?thesis by simp
  next
    case b: (Some y)
    show ?thesis
    proof (cases "dueDate a")
      case None
      with b that show ?thesis by (simp add: compareDueDate_def)
    next
      case a: (Some x)
      with b that show ?thesis
        by (cases x; cases y) (simp_all add: compareDueDate_def)
    qed
  qed
  have after: "?R b a" if "?V a" "?V b" "\<not> sortCompare (compareDueDate a b) \<le> 0" for a b
  proof (cases "dueDate a")
    case None
    then show ?thesis by simp
  next
    case a: (Some x)
    show ?thesis
    proof (cases "dueDate b")
      case None
      with a that show ?thesis by (simp add: compareDueDate_def)
    next
      case b: (Some y)
      with a that show ?thesis
        by (cases x; cases y) (simp_all add: compareDueDate_def)
    qed
  qed
  have trans: "?R a d" if "?R a b" "?R b d" for a b d
    using that lessEq_trans by (auto split: option.splits)
  from valid SortDueDate have "list_all ?V ts"
    by (simp add: sortKeyValid_def [abs_def])
  from sorted_wrt_array_sort [of ?V compareDueDate ?R ts, OF before after trans this]
  have "sorted_wrt ?R (array_sort compareDueDate ts)"
    by (rule conjunct1)
  with SortDueDate show ?thesis
    by (simp add: sortTodos_def inOrder_def [abs_def])
qed

lemma mset_sortTodos: "mset (sortTodos ts s) = mset ts"
  by (cases s) (simp_all add: sortTodos_def mset_array_sort)

lemma filterTodos_passes: "filterTodos ts f = filter (passes f) ts"
  by (cases f) (simp_all add: filterTodos_def passes_def [abs_def])

text \<open>
  C7 (amended). For every list of todos and every filter and sort selection, the
  projection returns exactly the todos that pass the filter (all, the not completed, or
  the completed ones), each as often as it occurs in the list. When no todo that passes
  the filter has an Invalid Date in the field that the selection sorts on (the creation
  time for "created", the due date for "dueDate"; a priority is always valid), they are
  arranged in the selected order: creation time descending, priority rank descending, or
  due date ascending with the todos without due date last. The projection is a function
  of the list and the two selections alone and returns a new list: it has no state, and
  the list it is given is not changed.
\<close>

theorem getFilteredAndSortedTodos_filtered_sorted_valid:
  "mset (getFilteredAndSortedTodos ts f s) = filter_mset (passes f) (mset ts)
   \<and> (list_all (sortKeyValid s) (filter (passes f) ts) \<longrightarrow>
        sorted_wrt (inOrder s) (getFilteredAndSortedTodos ts f s))"
  by (simp add: getFilteredAndSortedTodos_def mset_sortTodos sorted_sortTodos
      filterTodos_passes)

theorem getFilteredAndSortedTodos_filtered_sorted_valid_witness:
  "list_all (sortKeyValid SortDueDate)
     (filter (passes FilterActive) [dueA, doneE, dueB, dueC, dueD])
   \<and> getFilteredAndSortedTodos [dueA, doneE, dueB, dueC, dueD] FilterActive SortDueDate
       = [dueB, dueD, dueA, dueC]
   \<and> sorted_wrt (inOrder SortDueDate)
       (getFilteredAndSortedTodos [dueA, doneE, dueB, dueC, dueD] FilterActive SortDueDate)"
proof -
  have v: "list_all (sortKeyValid SortDueDate)
     (filter (passes FilterActive) [dueA, doneE, dueB, dueC, dueD])"
    by (simp add: sortKeyValid_def passes_def due_defs)
  have r: "getFilteredAndSortedTodos [dueA, doneE, dueB, dueC, dueD] FilterActive SortDueDate
       = [dueB, dueD, dueA, dueC]"
    by (simp add: getFilteredAndSortedTodos_def filterTodos_def sortTodos_def array_sort_def
        compareDueDate_def due_defs)
  from getFilteredAndSortedTodos_filtered_sorted_valid
    [of "[dueA, doneE, dueB, dueC, dueD]" FilterActive SortDueDate] v
  have "sorted_wrt (inOrder SortDueDate)
       (getFilteredAndSortedTodos [dueA, doneE, dueB, dueC, dueD] FilterActive SortDueDate)"
    by blast
  with v r show ?thesis by (intro conjI)
qed

text \<open>
  C7 as stated fails: a todo whose due date is an Invalid Date, as the optimistic todo of
  a create or an update with a due-date string that is not a date has, compares as equal
  to every todo with a due date, and the todo due at 300 stays before the one due at 100.
\<close>

theorem getFilteredAndSortedTodos_invalid_date_counterexample:
  "getFilteredAndSortedTodos [dueA, dueX, dueB, dueC, dueD] FilterAll SortDueDate
     = [dueA, dueX, dueB, dueD, dueC]
   \<and> dueDate dueA = Some (Number 300) \<and> dueDate dueB = Some (Number 100)
   \<and> \<not> sorted_wrt (inOrder SortDueDate)
         (getFilteredAndSortedTodos [dueA, dueX, dueB, dueC, dueD] FilterAll SortDueDate)"
  by (simp add: getFilteredAndSortedTodos_def filterTodos_def sortTodos_def array_sort_def
      compareDueDate_def inOrder_def due_defs)

subsection \<open>The backend update\<close>

lemma find_replaceFirst:
  "find P xs = Some x \<Longrightarrow> \<exists>k < length xs. xs ! k = x \<and> replaceFirst P y xs = xs[k := y]"
proof (induction xs)
  case Nil
  then show ?case by simp
next
  case (Cons a xs)
  show ?case
  proof (cases "P a")
    case True
    with Cons.prems have "a = x" by simp
    with True show ?thesis by (intro exI [of _ 0]) simp
  next
    case False
    with Cons.prems have "find P xs = Some x" by simp
    from Cons.IH [OF this] obtain k where
      "k < length xs" "xs ! k = x" "replaceFirst P y xs = xs[k := y]"
      by blast
    with False show ?thesis by (intro exI [of _ "Suc k"]) simp
  qed
qed

text \<open>
  C10. A successful \<open>TodoService_update i dto\<close> changes the stored collection at one
  index only, that of the first todo with identifier \<open>i\<close>: the length, the order of the
  identifiers and every other todo are unchanged, and so is the counter. In the target
  todo the identifier and the creation time are kept, the modification time is set, and
  every field that the dto leaves \<^verbatim>\<open>undefined\<close> keeps its value.
\<close>

theorem TodoService_update_frame:
  assumes "TodoService_update newDate now i dto service = Inr (todo', service')"
  shows "\<exists>k < length (service_todos service).
           todo_id (service_todos service ! k) = i
         \<and> service_todos service' = (service_todos service)[k := todo']
         \<and> length (service_todos service') = length (service_todos service)
         \<and> map todo_id (service_todos service') = map todo_id (service_todos service)
         \<and> (\<forall>j. j \<noteq> k \<longrightarrow> service_todos service' ! j = service_todos service ! j)
         \<and> idCounter service' = idCounter service
         \<and> todo_id todo' = i
         \<and> createdAt todo' = createdAt (service_todos service ! k)
         \<and> updatedAt todo' = now
         \<and> (read (u_title dto) = None \<longrightarrow> title todo' = title (service_todos service ! k))
         \<and> (read (u_description dto) = None \<longrightarrow>
              description todo' = description (service_todos service ! k))
         \<and> (read (u_completed dto) = None \<longrightarrow>
              completed todo' = completed (service_todos service ! k))
         \<and> (read (u_priority dto) = None \<longrightarrow>
              priority todo' = priority (service_todos service ! k))
         \<and> (read (u_dueDate dto) = None \<longrightarrow>
              dueDate todo' = dueDate (service_todos service ! k))"
proof -
  let ?P = "\<lambda>t. todo_id t = i"
  from assms obtain old where old: "find ?P (service_todos service) = Some old"
    by (auto simp: TodoService_update_def findOne_def split: option.splits)
  then have one: "findOne i service = Inr old"
    by (simp add: findOne_def)
  from find_replaceFirst [OF old, of todo'] obtain k where
    bound: "k < length (service_todos service)" and
    at: "service_todos service ! k = old" and
    put: "replaceFirst ?P todo' (service_todos service) = (service_todos service)[k := todo']"
    by blast
  from old have idk: "todo_id old = i"
    by (auto simp: find_Some_iff)
  from assms one have new:
    "service' = service\<lparr>service_todos := replaceFirst ?P todo' (service_todos service)\<rparr>"
    by (auto simp: TodoService_update_def Let_def)
  from assms one have fields:
    "todo_id todo' = todo_id old" "createdAt todo' = createdAt old" "updatedAt todo' = now"
    "read (u_title dto) = None \<longrightarrow> title todo' = title old"
    "read (u_description dto) = None \<longrightarrow> description todo' = description old"
    "read (u_completed dto) = None \<longrightarrow> completed todo' = completed old"
    "read (u_priority dto) = None \<longrightarrow> priority todo' = priority old"
    "read (u_dueDate dto) = None \<longrightarrow> dueDate todo' = dueDate old"
    by (auto simp: TodoService_update_def Let_def split: option.splits)
  have ids: "map todo_id (service_todos service') = map todo_id (service_todos service)"
    using fields(1) bound at unfolding new put
    by (simp add: map_update) (metis list_update_id nth_map)
  show ?thesis
    using bound idk at new put fields ids by (intro exI [of _ k]) simp
qed

theorem TodoService_update_frame_witness:
  "TodoService_update sampleNewDate (Number 900) ''5'' (todoData sampleU5) sampleService
     = Inr (sampleTodo5\<lparr>completed := True, updatedAt := Number 900\<rparr>,
            sampleService\<lparr>service_todos :=
              [sampleTodo, sampleTodo5\<lparr>completed := True, updatedAt := Number 900\<rparr>]\<rparr>)
   \<and> read (u_title (todoData sampleU5)) = None
   \<and> (\<exists>k < length (service_todos sampleService).
         todo_id (service_todos sampleService ! k) = ''5''
       \<and> title (sampleTodo5\<lparr>completed := True, updatedAt := Number 900\<rparr>)
           = title (service_todos sampleService ! k))"
proof -
  have h: "TodoService_update sampleNewDate (Number 900) ''5'' (todoData sampleU5) sampleService
     = Inr (sampleTodo5\<lparr>completed := True, updatedAt := Number 900\<rparr>,
            sampleService\<lparr>service_todos :=
              [sampleTodo, sampleTodo5\<lparr>completed := True, updatedAt := Number 900\<rparr>]\<rparr>)"
    by (simp add: TodoService_update_def findOne_def sampleService_def sampleU5_def sampleTodo5_def
        noChanges_def sampleTodo_def Let_def)
  have t: "read (u_title (todoData sampleU5)) = None"
    by (simp add: sampleU5_def noChanges_def)
  from TodoService_update_frame [OF h] obtain k where k:
    "k < length (service_todos sampleService)"
    "todo_id (service_todos sampleService ! k) = ''5''"
    "read (u_title (todoData sampleU5)) = None \<longrightarrow>
       title (sampleTodo5\<lparr>completed := True, updatedAt := Number 900\<rparr>)
         = title (service_todos sampleService ! k)"
    by (elim exE conjE)
  from k(3) t have "title (sampleTodo5\<lparr>completed := True, updatedAt := Number 900\<rparr>)
         = title (service_todos sampleService ! k)"
    by (rule mp)
  with k(1,2) have "\<exists>k < length (service_todos sampleService).
         todo_id (service_todos sampleService ! k) = ''5''
       \<and> title (sampleTodo5\<lparr>completed := True, updatedAt := Number 900\<rparr>)
           = title (service_todos sampleService ! k)"
    by (intro exI [of _ k] conjI)
  with h t show ?thesis by (intro conjI)
qed

end
